theory Spec2Isabelle
  imports Main
begin

section \<open>JavaScript values, effects and exceptions\<close>

text \<open>
  A handler may throw (or reject with) any JavaScript value, not only an \<open>Error\<close>; the
  \<open>catch (e: unknown)\<close> clauses of the sources receive it unchanged. The values that the
  catch clauses tell apart are kept: \<open>undefined\<close>, \<open>null\<close>, a string, and an error object
  with its \<open>name\<close>, \<open>message\<close> and \<open>stack\<close>.
\<close>

datatype JSValue =
    JSUndefined
  | JSNull
  | JSString string
  | JSError string string string

text \<open>
  String conversion in a template literal, \<^verbatim>\<open>`${e}`\<close>. For an error object this is
  \<open>Error.prototype.toString\<close>: the name, the message, or both joined by a colon.
\<close>

fun template_string :: "JSValue \<Rightarrow> string" where
  "template_string JSUndefined = ''undefined''"
| "template_string JSNull = ''null''"
| "template_string (JSString s) = s"
| "template_string (JSError name message stack) =
     (if name = [] then message else if message = [] then name else name @ '': '' @ message)"

text \<open>
  The property read \<^verbatim>\<open>(e as Error).stack\<close>. The cast is erased at run time. Reading a
  property of \<open>undefined\<close> or \<open>null\<close> raises a \<open>TypeError\<close>; a string has no \<open>stack\<close>
  property, so the read gives \<open>undefined\<close>.
\<close>

definition nullish_read_error :: "string \<Rightarrow> JSValue" where
  "nullish_read_error v =
     JSError ''TypeError'' (''Cannot read properties of '' @ v @ '' (reading 'stack')'')
       (''TypeError: Cannot read properties of '' @ v @ '' (reading 'stack')'')"

fun read_stack :: "JSValue \<Rightarrow> JSValue + JSValue" where
  "read_stack JSUndefined = Inl (nullish_read_error ''undefined'')"
| "read_stack JSNull = Inl (nullish_read_error ''null'')"
| "read_stack (JSString s) = Inr JSUndefined"
| "read_stack (JSError name message stack) = Inr (JSString stack)"

datatype console_entry = ConsoleLog string | ConsoleError string

text \<open>
  The world an awaited call runs in: the lines written to the console, and the state of
  whatever lies behind the API client (the platform). An awaited asynchronous call takes
  the world and gives its outcome, \<open>Inl\<close> the value it rejected with or \<open>Inr\<close> the value
  it resolved to, and the world it leaves.
\<close>

record 'p world =
  console :: "console_entry list"
  platform :: 'p

type_synonym ('a, 'w) async = "'w \<Rightarrow> (JSValue + 'a) \<times> 'w"

definition resolve :: "'a \<Rightarrow> ('a, 'w) async" where
  "resolve v w = (Inr v, w)"

definition reject :: "JSValue \<Rightarrow> ('a, 'w) async" where
  "reject e w = (Inl e, w)"

text \<open>\<^verbatim>\<open>const v = await m; k(v)\<close>: a rejection of \<open>m\<close> skips the rest.\<close>

definition await :: "('a, 'w) async \<Rightarrow> ('a \<Rightarrow> ('b, 'w) async) \<Rightarrow> ('b, 'w) async" where
  "await m k w = (case m w of (Inl e, w') \<Rightarrow> (Inl e, w') | (Inr v, w') \<Rightarrow> k v w')"

text \<open>\<^verbatim>\<open>try { body } catch (e) { handler(e) }\<close>: whatever the catch clause throws escapes.\<close>

definition try_catch :: "('a, 'w) async \<Rightarrow> (JSValue \<Rightarrow> ('a, 'w) async) \<Rightarrow> ('a, 'w) async" where
  "try_catch body handler w =
     (case body w of (Inl e, w') \<Rightarrow> handler e w' | (Inr v, w') \<Rightarrow> (Inr v, w'))"

definition console_log :: "string \<Rightarrow> (unit, 'p world) async" where
  "console_log s w = (Inr (), w\<lparr>console := console w @ [ConsoleLog s]\<rparr>)"

definition console_error :: "string \<Rightarrow> (unit, 'p world) async" where
  "console_error s w = (Inr (), w\<lparr>console := console w @ [ConsoleError s]\<rparr>)"

text \<open>
  The catch clause of every slot,
  \<^verbatim>\<open>console.error(`<prefix>${(e as Error).stack}`)\<close>: the stack is read first, then
  the line is written.
\<close>

definition console_error_stack :: "string \<Rightarrow> JSValue \<Rightarrow> (unit, 'p world) async" where
  "console_error_stack prefix e =
     (case read_stack e of
        Inl t \<Rightarrow> reject t
      | Inr s \<Rightarrow> console_error (prefix @ template_string s))"

section \<open>Event subtype predicates (src/utility/message-events.ts)\<close>

text \<open>
  The argument of \<open>isPostedMessageEvent\<close> is an object with a \<open>type\<close> string and an
  optional \<open>subtype\<close> string. An absent field reads as \<open>undefined\<close>; it is \<open>None\<close> here.
\<close>

record MessageEventShape =
  ev_type :: string
  ev_subtype :: "string option"

definition isPostedMessageEvent :: "'a MessageEventShape_scheme \<Rightarrow> bool" where
  "isPostedMessageEvent event =
     (ev_subtype event = None \<or> ev_subtype event = Some ''bot_message'' \<or>
      ev_subtype event = Some ''file_share'' \<or> ev_subtype event = Some ''thread_broadcast'')"

section \<open>Request bodies and payload types (src/request/payload-types.ts)\<close>




text \<open>
  The fields of \<open>SlackRequestBody\<close> that tell the payload shapes apart; each is optional
  in the interface.
\<close>

record SlackRequestBody =
  body_type :: "string option"
  body_command :: "string option"
  body_event :: "MessageEventShape option"
  body_callback_id :: "string option"
  body_block_id :: "string option"
  body_action_id :: "string option"





section \<open>Assistant thread context (thread-context.ts)\<close>

record AssistantThreadContext =
  ctx_enterprise_id :: "string option"
  ctx_team_id :: string
  ctx_channel_id :: string

section \<open>The thread context store (thread-context-store.ts)\<close>

record AssistantThreadKey =
  key_channel_id :: string
  key_thread_ts :: string

text \<open>
  The interface \<open>AssistantThreadContextStore\<close>: any object with a \<open>save\<close> and a \<open>find\<close>.
\<close>

record 'p AssistantThreadContextStore =
  store_save :: "AssistantThreadKey \<Rightarrow> AssistantThreadContext \<Rightarrow> (unit, 'p world) async"
  store_find :: "AssistantThreadKey \<Rightarrow> (AssistantThreadContext option, 'p world) async"

text \<open>
  Message metadata as the store writes and reads it. \<open>find\<close> casts the payload to
  \<open>AssistantThreadContext\<close> without looking at it, so the payload has that type here.
\<close>

record MessageMetadata =
  event_type :: string
  event_payload :: AssistantThreadContext

datatype AnyMessageBlock = Block string

text \<open>
  A message of a \<open>conversations.replies\<close> response, with the fields the store reads.
  \<open>msg_subtype = None\<close> is a message object with no \<open>subtype\<close> key (the source tests
  \<^verbatim>\<open>"subtype" in message\<close>). Every message of the platform has its timestamp, so
  \<^verbatim>\<open>message.ts!\<close> is the timestamp. \<open>msg_thread_ts\<close> is not read by the store; the
  platform uses it to tell which thread a message belongs to.
\<close>

record Message =
  msg_ts :: string
  msg_thread_ts :: "string option"
  msg_user :: "string option"
  msg_subtype :: "string option"
  msg_text :: "string option"
  msg_blocks :: "AnyMessageBlock list option"
  msg_metadata :: "MessageMetadata option"

record ConversationsRepliesRequest =
  replies_channel :: string
  replies_ts :: string
  replies_oldest :: string
  replies_include_all_metadata :: bool
  replies_limit :: nat

record ConversationsRepliesResponse =
  response_messages :: "Message list option"

text \<open>
  The argument of \<open>chat.update\<close> as \<open>save\<close> builds it: the spread of the reply leaves a
  \<open>channel_id\<close> key in the object next to \<open>channel\<close>.
\<close>

record ChatUpdateRequest =
  update_channel_id :: string
  update_ts :: string
  update_text :: "string option"
  update_blocks :: "AnyMessageBlock list option"
  update_channel :: string
  update_metadata :: "MessageMetadata option"

text \<open>
  The two methods of the API client that the store calls. The client is a collaborator
  handed to the constructor; each method acts on the platform state and may reject.
\<close>

record 'p SlackAPIClient =
  conversations_replies ::
    "ConversationsRepliesRequest \<Rightarrow> 'p \<Rightarrow> (JSValue + ConversationsRepliesResponse) \<times> 'p"
  chat_update :: "ChatUpdateRequest \<Rightarrow> 'p \<Rightarrow> (JSValue + unit) \<times> 'p"

definition api_call :: "('p \<Rightarrow> (JSValue + 'a) \<times> 'p) \<Rightarrow> ('a, 'p world) async" where
  "api_call f w = (case f (platform w) of (r, p') \<Rightarrow> (r, w\<lparr>platform := p'\<rparr>))"

record 'p DefaultAssistantThreadContextStore =
  client :: "'p SlackAPIClient"
  thisBotUserId :: string

text \<open>
  \<open>FirstReply\<close>. The non-null assertions \<^verbatim>\<open>message.text!\<close> and \<^verbatim>\<open>message.blocks!\<close> check
  nothing at run time, so an absent text or blocks field stays absent.
\<close>

record FirstReply =
  reply_channel_id :: string
  reply_ts :: string
  reply_text :: "string option"
  reply_blocks :: "AnyMessageBlock list option"
  reply_metadata :: "MessageMetadata option"

text \<open>The \<open>for\<close> loop of \<open>#findFirstAssistantReply\<close> over \<open>response.messages\<close>.\<close>

fun first_assistant_message :: "string \<Rightarrow> AssistantThreadKey \<Rightarrow> Message list \<Rightarrow> FirstReply option" where
  "first_assistant_message bot_id key [] = None"
| "first_assistant_message bot_id key (message # rest) =
     (if msg_subtype message = None \<and> msg_user message = Some bot_id then
        Some \<lparr>reply_channel_id = key_channel_id key,
              reply_ts = msg_ts message,
              reply_text = msg_text message,
              reply_blocks = msg_blocks message,
              reply_metadata = msg_metadata message\<rparr>
      else first_assistant_message bot_id key rest)"

definition replies_request :: "AssistantThreadKey \<Rightarrow> ConversationsRepliesRequest" where
  "replies_request key =
     \<lparr>replies_channel = key_channel_id key,
      replies_ts = key_thread_ts key,
      replies_oldest = key_thread_ts key,
      replies_include_all_metadata = True,
      replies_limit = 4\<rparr>"

definition findFirstAssistantReply ::
  "'p DefaultAssistantThreadContextStore \<Rightarrow> AssistantThreadKey \<Rightarrow> (FirstReply option, 'p world) async"
where
  "findFirstAssistantReply this key =
     try_catch
       (await (api_call (conversations_replies (client this) (replies_request key)))
          (\<lambda>response.
             case response_messages response of
               Some messages \<Rightarrow> resolve (first_assistant_message (thisBotUserId this) key messages)
             | None \<Rightarrow> resolve None))
       (\<lambda>e. await (console_log (''Failed to fetch conversations.replies API result: '' @ template_string e))
               (\<lambda>_. resolve None))"

definition update_request :: "FirstReply \<Rightarrow> AssistantThreadContext \<Rightarrow> ChatUpdateRequest" where
  "update_request reply newContext =
     \<lparr>update_channel_id = reply_channel_id reply,
      update_ts = reply_ts reply,
      update_text = reply_text reply,
      update_blocks = reply_blocks reply,
      update_channel = reply_channel_id reply,
      update_metadata =
        Some \<lparr>event_type = ''assistant_thread_context'', event_payload = newContext\<rparr>\<rparr>"

definition save ::
  "'p DefaultAssistantThreadContextStore \<Rightarrow> AssistantThreadKey \<Rightarrow> AssistantThreadContext \<Rightarrow>
     (unit, 'p world) async"
where
  "save this key newContext =
     await (findFirstAssistantReply this key)
       (\<lambda>reply.
          case reply of
            Some r \<Rightarrow> api_call (chat_update (client this) (update_request r newContext))
          | None \<Rightarrow> resolve ())"

definition find_context ::
  "'p DefaultAssistantThreadContextStore \<Rightarrow> AssistantThreadKey \<Rightarrow>
     (AssistantThreadContext option, 'p world) async"
where
  "find_context this key =
     await (findFirstAssistantReply this key)
       (\<lambda>reply.
          case reply of
            Some r \<Rightarrow> resolve (map_option event_payload (reply_metadata r))
          | None \<Rightarrow> resolve None)"

section \<open>The platform behind the API client\<close>

text \<open>
  The API client and the messaging platform are collaborators outside the repository.
  For the properties that speak of what a thread contains, the platform is this model of
  what section 6 of the specification asks of it: it fetches a bounded window of a
  thread's replies with their metadata, and it updates the content and metadata of an
  existing message. It keeps the messages of every channel oldest first, records every
  call it receives, and follows a schedule of outages: each call takes the head of the
  schedule and rejects with the value found there, if any.

  A thread is its root message followed by the replies that name the root in
  \<open>thread_ts\<close>. No message of a thread is older than the root, so the \<open>oldest\<close> bound the
  store sends (the root's timestamp) leaves nothing out, and \<open>limit\<close> cuts the window.
\<close>

datatype ApiCall =
    ConversationsRepliesCall ConversationsRepliesRequest
  | ChatUpdateCall ChatUpdateRequest

record Slack =
  slack_messages :: "(string \<times> Message) list"
  slack_calls :: "ApiCall list"
  slack_outages :: "JSValue option list"

definition thread_messages :: "string \<Rightarrow> string \<Rightarrow> (string \<times> Message) list \<Rightarrow> Message list" where
  "thread_messages channel ts ms =
     map snd
       (filter (\<lambda>cm. fst cm = channel \<and> (msg_ts (snd cm) = ts \<or> msg_thread_ts (snd cm) = Some ts)) ms)"

definition next_outage :: "Slack \<Rightarrow> JSValue option \<times> Slack" where
  "next_outage p =
     (case slack_outages p of
        [] \<Rightarrow> (None, p)
      | outage # later \<Rightarrow> (outage, p\<lparr>slack_outages := later\<rparr>))"

definition slack_conversations_replies ::
  "ConversationsRepliesRequest \<Rightarrow> Slack \<Rightarrow> (JSValue + ConversationsRepliesResponse) \<times> Slack"
where
  "slack_conversations_replies request p =
     (case next_outage (p\<lparr>slack_calls := slack_calls p @ [ConversationsRepliesCall request]\<rparr>) of
        (Some e, p') \<Rightarrow> (Inl e, p')
      | (None, p') \<Rightarrow>
          (Inr \<lparr>response_messages =
                  Some (take (replies_limit request)
                          (thread_messages (replies_channel request) (replies_ts request)
                             (slack_messages p')))\<rparr>,
           p'))"

definition update_targets :: "ChatUpdateRequest \<Rightarrow> string \<times> Message \<Rightarrow> bool" where
  "update_targets request cm =
     (fst cm = update_channel request \<and> msg_ts (snd cm) = update_ts request)"

text \<open>A field absent from the request is left as it is on the message.\<close>

definition apply_update :: "ChatUpdateRequest \<Rightarrow> string \<times> Message \<Rightarrow> string \<times> Message" where
  "apply_update request cm =
     (if update_targets request cm then
        (fst cm,
         (snd cm)\<lparr>msg_text := (case update_text request of None \<Rightarrow> msg_text (snd cm) | Some t \<Rightarrow> Some t),
                  msg_blocks := (case update_blocks request of None \<Rightarrow> msg_blocks (snd cm) | Some b \<Rightarrow> Some b),
                  msg_metadata :=
                    (case update_metadata request of None \<Rightarrow> msg_metadata (snd cm) | Some d \<Rightarrow> Some d)\<rparr>)
      else cm)"

definition message_not_found :: JSValue where
  "message_not_found =
     JSError ''SlackAPIError'' ''Failed to call chat.update due to message_not_found''
       ''SlackAPIError: Failed to call chat.update due to message_not_found''"

definition slack_chat_update :: "ChatUpdateRequest \<Rightarrow> Slack \<Rightarrow> (JSValue + unit) \<times> Slack" where
  "slack_chat_update request p =
     (case next_outage (p\<lparr>slack_calls := slack_calls p @ [ChatUpdateCall request]\<rparr>) of
        (Some e, p') \<Rightarrow> (Inl e, p')
      | (None, p') \<Rightarrow>
          if list_ex (update_targets request) (slack_messages p') then
            (Inr (), p'\<lparr>slack_messages := map (apply_update request) (slack_messages p')\<rparr>)
          else (Inl message_not_found, p'))"

definition slack_client :: "Slack SlackAPIClient" where
  "slack_client =
     \<lparr>conversations_replies = slack_conversations_replies, chat_update = slack_chat_update\<rparr>"

definition slack_store :: "string \<Rightarrow> Slack DefaultAssistantThreadContextStore" where
  "slack_store bot_id = \<lparr>client = slack_client, thisBotUserId = bot_id\<rparr>"

text \<open>
  The anchor of a thread, in the words of the specification: the first message, among the
  first four of the thread, that carries no subtype and whose author is the bot.
\<close>

definition is_anchor :: "string \<Rightarrow> Message \<Rightarrow> bool" where
  "is_anchor bot_id m = (msg_subtype m = None \<and> msg_user m = Some bot_id)"

definition lookup_window :: "AssistantThreadKey \<Rightarrow> Slack \<Rightarrow> Message list" where
  "lookup_window key p =
     take 4 (thread_messages (key_channel_id key) (key_thread_ts key) (slack_messages p))"

definition anchor :: "string \<Rightarrow> AssistantThreadKey \<Rightarrow> Slack \<Rightarrow> Message option" where
  "anchor bot_id key p = List.find (is_anchor bot_id) (lookup_window key p)"

definition reply_of :: "AssistantThreadKey \<Rightarrow> Message \<Rightarrow> FirstReply" where
  "reply_of key m =
     \<lparr>reply_channel_id = key_channel_id key,
      reply_ts = msg_ts m,
      reply_text = msg_text m,
      reply_blocks = msg_blocks m,
      reply_metadata = msg_metadata m\<rparr>"

text \<open>The next \<open>n\<close> calls to the platform meet no outage.\<close>

definition calls_succeed :: "nat \<Rightarrow> Slack \<Rightarrow> bool" where
  "calls_succeed n p = list_all (\<lambda>outage. outage = None) (take n (slack_outages p))"

text \<open>Timestamps identify the messages of a channel.\<close>

definition unique_timestamps :: "Slack \<Rightarrow> bool" where
  "unique_timestamps p = distinct (map (\<lambda>cm. (fst cm, msg_ts (snd cm))) (slack_messages p))"

section \<open>The assistant (assistant.ts)\<close>

text \<open>
  The event declarations are not among the sources; the records below carry the fields
  that the handlers read. A message event has an optional \<open>subtype\<close> and \<open>user\<close>; an
  assistant thread event carries \<open>assistant_thread.context\<close>.
\<close>

record MessageEvent = MessageEventShape +
  ev_user :: "string option"

record AssistantThread =
  thread_context :: AssistantThreadContext

record AssistantThreadEvent =
  assistant_thread :: AssistantThread

record SayArguments =
  say_text :: string

record SuggestedPrompts =
  prompts_title :: string
  prompts :: "string list"

text \<open>
  The request context: the bot user id of the installation and the capabilities that the
  default behaviours call. Each capability is an asynchronous call that may reject.
\<close>

record 'p RequestContext =
  botUserId :: "string option"
  say :: "SayArguments \<Rightarrow> (unit, 'p world) async"
  setSuggestedPrompts :: "SuggestedPrompts \<Rightarrow> (unit, 'p world) async"
  saveThreadContextStore :: "AssistantThreadContext \<Rightarrow> (unit, 'p world) async"

record ('e, 'p) SlackRequest =
  req_body :: SlackRequestBody
  req_payload :: 'e
  req_context :: "'p RequestContext"

type_synonym ('e, 'p) EventLazyHandler = "('e, 'p) SlackRequest \<Rightarrow> (unit, 'p world) async"

type_synonym 'p AssistantThreadStartedHandler = "(AssistantThreadEvent, 'p) EventLazyHandler"
type_synonym 'p AssistantThreadContextChangedHandler = "(AssistantThreadEvent, 'p) EventLazyHandler"
type_synonym 'p AssistantUserMessageHandler = "(MessageEvent, 'p) EventLazyHandler"
type_synonym 'p AssistantBotMessageHandler = "(MessageEvent, 'p) EventLazyHandler"

record 'p AssistantOptions =
  opt_threadContextStore :: "'p AssistantThreadContextStore option"
  opt_threadStarted :: "'p AssistantThreadStartedHandler option"
  opt_threadContextChanged :: "'p AssistantThreadContextChangedHandler option"
  opt_userMessage :: "'p AssistantUserMessageHandler option"
  opt_botMessage :: "'p AssistantBotMessageHandler option"

record 'p Assistant =
  threadContextStore :: "'p AssistantThreadContextStore option"
  threadStartedHandler :: "(AssistantThreadEvent, 'p) EventLazyHandler"
  threadContextChangedHandler :: "(AssistantThreadEvent, 'p) EventLazyHandler"
  userMessageHandler :: "(MessageEvent, 'p) EventLazyHandler"
  botMessageHandler :: "(MessageEvent, 'p) EventLazyHandler"

text \<open>
  The constructor. \<open>isAssitantThreadEvent\<close> is imported from the context module, which is
  not among the sources; it is a parameter here, a predicate on the request body.
\<close>

definition new_Assistant :: "(SlackRequestBody \<Rightarrow> bool) \<Rightarrow> 'p AssistantOptions \<Rightarrow> 'p Assistant" where
  "new_Assistant isAssitantThreadEvent options =
     \<lparr>threadContextStore = opt_threadContextStore options,
      threadStartedHandler = (\<lambda>req.
        try_catch
          (if isAssitantThreadEvent (req_body req) then
             (case opt_threadStarted options of
                Some handler \<Rightarrow> handler req
              | None \<Rightarrow>
                  await (say (req_context req) \<lparr>say_text = '':wave: Hi, how can I help you today?''\<rparr>)
                    (\<lambda>_. setSuggestedPrompts (req_context req)
                            \<lparr>prompts_title = ''New chat'', prompts = [''What does SLACK stand for?'']\<rparr>))
           else resolve ())
          (console_error_stack ''Failed to execute threadStartedHandler listener: '')),
      threadContextChangedHandler = (\<lambda>req.
        try_catch
          (if isAssitantThreadEvent (req_body req) then
             (case opt_threadContextChanged options of
                Some handler \<Rightarrow> handler req
              | None \<Rightarrow>
                  saveThreadContextStore (req_context req)
                    (thread_context (assistant_thread (req_payload req))))
           else resolve ())
          (console_error_stack ''Failed to execute threadContextChangedHandler listener: '')),
      userMessageHandler = (\<lambda>req.
        try_catch
          (if ev_subtype (req_payload req) = None \<or> ev_subtype (req_payload req) = Some ''file_share'' then
             (case opt_userMessage options of
                Some handler \<Rightarrow> handler req
              | None \<Rightarrow> resolve ())
           else resolve ())
          (console_error_stack ''Failed to execute userMessageHandler listener: '')),
      botMessageHandler = (\<lambda>req.
        try_catch
          (if ev_subtype (req_payload req) = None \<and> ev_user (req_payload req) = botUserId (req_context req) then
             (case opt_botMessage options of
                Some handler \<Rightarrow> handler req
              | None \<Rightarrow> resolve ())
           else resolve ())
          (console_error_stack ''Failed to execute botMessageHandler listener: ''))\<rparr>"

text \<open>The four registration methods; each assigns the slot's field.\<close>

definition threadStarted ::
  "(SlackRequestBody \<Rightarrow> bool) \<Rightarrow> 'p AssistantThreadStartedHandler \<Rightarrow> 'p Assistant \<Rightarrow> 'p Assistant"
where
  "threadStarted isAssitantThreadEvent handler this =
     this\<lparr>threadStartedHandler := (\<lambda>req.
        try_catch
          (if isAssitantThreadEvent (req_body req) then handler req else resolve ())
          (console_error_stack ''Failed to execute threadStartedHandler listener: ''))\<rparr>"

definition threadContextChanged ::
  "(SlackRequestBody \<Rightarrow> bool) \<Rightarrow> 'p AssistantThreadContextChangedHandler \<Rightarrow> 'p Assistant \<Rightarrow> 'p Assistant"
where
  "threadContextChanged isAssitantThreadEvent handler this =
     this\<lparr>threadContextChangedHandler := (\<lambda>req.
        try_catch
          (if isAssitantThreadEvent (req_body req) then handler req else resolve ())
          (console_error_stack ''Failed to execute threadContextChangedHandler listener: ''))\<rparr>"

definition userMessage :: "'p AssistantUserMessageHandler \<Rightarrow> 'p Assistant \<Rightarrow> 'p Assistant" where
  "userMessage handler this =
     this\<lparr>userMessageHandler := (\<lambda>req.
        try_catch
          (if ev_subtype (req_payload req) = None \<or> ev_subtype (req_payload req) = Some ''file_share''
           then handler req else resolve ())
          (console_error_stack ''Failed to execute userMessageHandler listener: ''))\<rparr>"

definition botMessage :: "'p AssistantBotMessageHandler \<Rightarrow> 'p Assistant \<Rightarrow> 'p Assistant" where
  "botMessage handler this =
     this\<lparr>botMessageHandler := (\<lambda>req.
        try_catch
          (if ev_subtype (req_payload req) = None \<and> ev_user (req_payload req) = botUserId (req_context req)
           then handler req else resolve ())
          (console_error_stack ''Failed to execute botMessageHandler listener: ''))\<rparr>"

text \<open>
  A sequence of registrations on a coordinator, in the order the calls are made.
\<close>

datatype 'p Registration =
    RegisterThreadStarted "'p AssistantThreadStartedHandler"
  | RegisterThreadContextChanged "'p AssistantThreadContextChangedHandler"
  | RegisterUserMessage "'p AssistantUserMessageHandler"
  | RegisterBotMessage "'p AssistantBotMessageHandler"

fun register :: "(SlackRequestBody \<Rightarrow> bool) \<Rightarrow> 'p Registration \<Rightarrow> 'p Assistant \<Rightarrow> 'p Assistant" where
  "register isAssitantThreadEvent (RegisterThreadStarted handler) this =
     threadStarted isAssitantThreadEvent handler this"
| "register isAssitantThreadEvent (RegisterThreadContextChanged handler) this =
     threadContextChanged isAssitantThreadEvent handler this"
| "register isAssitantThreadEvent (RegisterUserMessage handler) this = userMessage handler this"
| "register isAssitantThreadEvent (RegisterBotMessage handler) this = botMessage handler this"

fun register_all ::
  "(SlackRequestBody \<Rightarrow> bool) \<Rightarrow> 'p Registration list \<Rightarrow> 'p Assistant \<Rightarrow> 'p Assistant"
where
  "register_all isAssitantThreadEvent [] this = this"
| "register_all isAssitantThreadEvent (r # rs) this =
     register_all isAssitantThreadEvent rs (register isAssitantThreadEvent r this)"

text \<open>
  The specification's reading of a slot: the handler most recently registered for it, if
  any. \<open>slot\<close> picks the registrations of one slot.
\<close>

fun started_of :: "'p Registration \<Rightarrow> 'p AssistantThreadStartedHandler option" where
  "started_of (RegisterThreadStarted handler) = Some handler"
| "started_of _ = None"

fun changed_of :: "'p Registration \<Rightarrow> 'p AssistantThreadContextChangedHandler option" where
  "changed_of (RegisterThreadContextChanged handler) = Some handler"
| "changed_of _ = None"

fun user_of :: "'p Registration \<Rightarrow> 'p AssistantUserMessageHandler option" where
  "user_of (RegisterUserMessage handler) = Some handler"
| "user_of _ = None"

fun bot_of :: "'p Registration \<Rightarrow> 'p AssistantBotMessageHandler option" where
  "bot_of (RegisterBotMessage handler) = Some handler"
| "bot_of _ = None"

fun last_registered :: "('r \<Rightarrow> 'h option) \<Rightarrow> 'r list \<Rightarrow> 'h option" where
  "last_registered slot [] = None"
| "last_registered slot (r # rs) =
     (case last_registered slot rs of Some handler \<Rightarrow> Some handler | None \<Rightarrow> slot r)"


section \<open>Concrete scenarios\<close>

text \<open>
  A direct-message thread \<open>100.000\<close> in channel \<open>D1\<close>: the user's message and the greeting
  of the bot \<open>BOT1\<close>; and the same thread before the bot has spoken.
\<close>

definition demo_key :: AssistantThreadKey where
  "demo_key = \<lparr>key_channel_id = ''D1'', key_thread_ts = ''100.000''\<rparr>"

definition demo_new_context :: AssistantThreadContext where
  "demo_new_context = \<lparr>ctx_enterprise_id = None, ctx_team_id = ''T1'', ctx_channel_id = ''C9''\<rparr>"

definition demo_root :: Message where
  "demo_root =
     \<lparr>msg_ts = ''100.000'', msg_thread_ts = Some ''100.000'', msg_user = Some ''U2'',
      msg_subtype = None, msg_text = Some ''hi'', msg_blocks = None, msg_metadata = None\<rparr>"

definition demo_greeting :: Message where
  "demo_greeting =
     \<lparr>msg_ts = ''100.001'', msg_thread_ts = Some ''100.000'', msg_user = Some ''BOT1'',
      msg_subtype = None, msg_text = Some ''Hello'', msg_blocks = Some [Block ''section''],
      msg_metadata = None\<rparr>"

definition demo_world :: "JSValue option list \<Rightarrow> Slack world" where
  "demo_world outages =
     \<lparr>console = [],
      platform = \<lparr>slack_messages = [(''D1'', demo_root), (''D1'', demo_greeting)],
                  slack_calls = [], slack_outages = outages\<rparr>\<rparr>"

definition demo_silent_world :: "JSValue option list \<Rightarrow> Slack world" where
  "demo_silent_world outages =
     \<lparr>console = [],
      platform = \<lparr>slack_messages = [(''D1'', demo_root)],
                  slack_calls = [], slack_outages = outages\<rparr>\<rparr>"

definition rate_limited :: JSValue where
  "rate_limited = JSError ''SlackAPIError'' ''ratelimited'' ''SlackAPIError: ratelimited''"

text \<open>
  Handlers that leave a mark on the console, a handler that rejects, and a request
  context of the installation whose bot user is \<open>BOT1\<close>.
\<close>

definition marking :: "string \<Rightarrow> ('e, unit) EventLazyHandler" where
  "marking name req = console_log name"

definition rejecting :: "JSValue \<Rightarrow> ('e, unit) EventLazyHandler" where
  "rejecting e req = reject e"

definition demo_context :: "unit RequestContext" where
  "demo_context =
     \<lparr>botUserId = Some ''BOT1'',
      say = (\<lambda>arguments. console_log (''say: '' @ say_text arguments)),
      setSuggestedPrompts = (\<lambda>arguments. console_log (''prompts: '' @ prompts_title arguments)),
      saveThreadContextStore = (\<lambda>c. console_log (''save: '' @ ctx_channel_id c))\<rparr>"

definition demo_body :: SlackRequestBody where
  "demo_body =
     \<lparr>body_type = Some ''event_callback'', body_command = None,
      body_event = Some \<lparr>ev_type = ''message'', ev_subtype = None\<rparr>,
      body_callback_id = None, body_block_id = None, body_action_id = None\<rparr>"

definition demo_message :: "string \<Rightarrow> (MessageEvent, unit) SlackRequest" where
  "demo_message author =
     \<lparr>req_body = demo_body,
      req_payload = \<lparr>ev_type = ''message'', ev_subtype = None, ev_user = Some author\<rparr>,
      req_context = demo_context\<rparr>"

definition demo_thread_event :: "(AssistantThreadEvent, unit) SlackRequest" where
  "demo_thread_event =
     \<lparr>req_body = demo_body,
      req_payload = \<lparr>assistant_thread = \<lparr>thread_context = demo_new_context\<rparr>\<rparr>,
      req_context = demo_context\<rparr>"

definition no_options :: "unit AssistantOptions" where
  "no_options =
     \<lparr>opt_threadContextStore = None, opt_threadStarted = None, opt_threadContextChanged = None,
      opt_userMessage = None, opt_botMessage = None\<rparr>"

definition quiet :: "unit world" where
  "quiet = \<lparr>console = [], platform = ()\<rparr>"


section \<open>Auxiliary facts\<close>

subsection \<open>The lookup, for any client\<close>

lemma first_assistant_message_find:
  "first_assistant_message bot_id key ms = map_option (reply_of key) (List.find (is_anchor bot_id) ms)"
  by (induction ms) (simp_all add: is_anchor_def reply_of_def)

lemma findFirstAssistantReply_resolved:
  assumes "conversations_replies (client this) (replies_request key) (platform w) = (Inr response, p')"
  shows "findFirstAssistantReply this key w =
           (Inr (case response_messages response of
                   Some messages \<Rightarrow> first_assistant_message (thisBotUserId this) key messages
                 | None \<Rightarrow> None),
            w\<lparr>platform := p'\<rparr>)"
  using assms
  by (simp add: findFirstAssistantReply_def try_catch_def await_def api_call_def resolve_def
        split: option.splits)

lemma findFirstAssistantReply_rejected:
  assumes "conversations_replies (client this) (replies_request key) (platform w) = (Inl e, p')"
  shows "findFirstAssistantReply this key w =
           (Inr None,
            w\<lparr>platform := p',
              console := console w @
                [ConsoleLog (''Failed to fetch conversations.replies API result: '' @ template_string e)]\<rparr>)"
  using assms
  by (simp add: findFirstAssistantReply_def try_catch_def await_def api_call_def resolve_def
        console_log_def)

lemma findFirstAssistantReply_never_rejects:
  "\<exists>r. fst (findFirstAssistantReply this key w) = Inr r"
proof (cases "conversations_replies (client this) (replies_request key) (platform w)")
  case (Pair r p')
  then show ?thesis
    by (cases r) (simp_all add: findFirstAssistantReply_resolved findFirstAssistantReply_rejected)
qed

subsection \<open>The lookup and the update on the platform\<close>

lemma next_outage_succeeds:
  "calls_succeed (Suc n) p \<Longrightarrow> next_outage p = (None, p\<lparr>slack_outages := tl (slack_outages p)\<rparr>)"
  by (cases "slack_outages p") (auto simp: calls_succeed_def next_outage_def)

lemma calls_succeed_tl:
  "calls_succeed (Suc n) p \<Longrightarrow> slack_outages p' = tl (slack_outages p) \<Longrightarrow> calls_succeed n p'"
  by (cases "slack_outages p") (auto simp: calls_succeed_def)

lemma replies_request_sel:
  "replies_channel (replies_request key) = key_channel_id key"
  "replies_ts (replies_request key) = key_thread_ts key"
  "replies_limit (replies_request key) = 4"
  by (simp_all add: replies_request_def)

lemma update_request_sel:
  "update_channel (update_request (reply_of key m) c) = key_channel_id key"
  "update_ts (update_request (reply_of key m) c) = msg_ts m"
  "update_text (update_request (reply_of key m) c) = msg_text m"
  "update_blocks (update_request (reply_of key m) c) = msg_blocks m"
  "update_metadata (update_request (reply_of key m) c) =
     Some \<lparr>event_type = ''assistant_thread_context'', event_payload = c\<rparr>"
  by (simp_all add: update_request_def reply_of_def)

lemma slack_store_sel:
  "chat_update (client (slack_store bot_id)) = slack_chat_update"
  "conversations_replies (client (slack_store bot_id)) = slack_conversations_replies"
  "thisBotUserId (slack_store bot_id) = bot_id"
  by (simp_all add: slack_store_def slack_client_def)

lemma slack_lookup_succeeds:
  assumes "calls_succeed (Suc n) (platform w)"
  shows "findFirstAssistantReply (slack_store bot_id) key w =
           (Inr (map_option (reply_of key) (anchor bot_id key (platform w))),
            w\<lparr>platform := (platform w)
                 \<lparr>slack_calls := slack_calls (platform w) @ [ConversationsRepliesCall (replies_request key)],
                  slack_outages := tl (slack_outages (platform w))\<rparr>\<rparr>)"
proof -
  let ?p = "platform w"
  let ?p1 = "?p\<lparr>slack_calls := slack_calls ?p @ [ConversationsRepliesCall (replies_request key)]\<rparr>"
  have ok: "calls_succeed (Suc n) ?p1"
    using assms by (simp add: calls_succeed_def)
  have "conversations_replies (client (slack_store bot_id)) (replies_request key) ?p =
          (Inr \<lparr>response_messages = Some (lookup_window key ?p)\<rparr>,
           ?p1\<lparr>slack_outages := tl (slack_outages ?p)\<rparr>)"
    by (simp add: slack_store_sel slack_conversations_replies_def
          next_outage_succeeds [OF ok] lookup_window_def replies_request_sel)
  from findFirstAssistantReply_resolved [OF this] show ?thesis
    by (simp add: first_assistant_message_find anchor_def slack_store_sel)
qed

lemma slack_lookup_fails:
  assumes "slack_outages (platform w) = Some e # later"
  shows "findFirstAssistantReply (slack_store bot_id) key w =
           (Inr None,
            w\<lparr>platform := (platform w)
                 \<lparr>slack_calls := slack_calls (platform w) @ [ConversationsRepliesCall (replies_request key)],
                  slack_outages := later\<rparr>,
              console := console w @
                [ConsoleLog (''Failed to fetch conversations.replies API result: '' @ template_string e)]\<rparr>)"
proof -
  let ?p = "platform w"
  have "conversations_replies (client (slack_store bot_id)) (replies_request key) ?p =
          (Inl e, ?p\<lparr>slack_calls := slack_calls ?p @ [ConversationsRepliesCall (replies_request key)],
                     slack_outages := later\<rparr>)"
    using assms
    by (simp add: slack_store_sel slack_conversations_replies_def next_outage_def)
  from findFirstAssistantReply_rejected [OF this] show ?thesis
    by simp
qed

lemma slack_lookup_cases:
  obtains (ok) "calls_succeed 1 (platform w)"
  | (outage) e later where "slack_outages (platform w) = Some e # later"
proof (cases "slack_outages (platform w)")
  case Nil
  then have "calls_succeed 1 (platform w)" by (simp add: calls_succeed_def)
  then show ?thesis by (rule ok)
next
  case (Cons first later)
  show ?thesis
  proof (cases first)
    case None
    with Cons have "calls_succeed 1 (platform w)" by (simp add: calls_succeed_def)
    then show ?thesis by (rule ok)
  next
    case (Some e)
    with Cons show ?thesis by (auto intro: outage)
  qed
qed

lemma find_map_option:
  "List.find P (map f xs) = map_option f (List.find (\<lambda>x. P (f x)) xs)"
  by (induction xs) simp_all

lemma apply_update_keeps:
  "fst (apply_update request cm) = fst cm"
  "msg_ts (snd (apply_update request cm)) = msg_ts (snd cm)"
  "msg_thread_ts (snd (apply_update request cm)) = msg_thread_ts (snd cm)"
  "msg_user (snd (apply_update request cm)) = msg_user (snd cm)"
  "msg_subtype (snd (apply_update request cm)) = msg_subtype (snd cm)"
  by (simp_all add: apply_update_def)

lemma thread_messages_update:
  "thread_messages c t (map (apply_update request) ms) =
     map (\<lambda>m. snd (apply_update request (c, m))) (thread_messages c t ms)"
proof (induction ms)
  case Nil
  show ?case by (simp add: thread_messages_def)
next
  case (Cons cm ms)
  then show ?case
    by (cases cm) (simp add: thread_messages_def apply_update_keeps)
qed

lemma is_anchor_update:
  "is_anchor bot_id (snd (apply_update request cm)) = is_anchor bot_id (snd cm)"
  by (simp add: is_anchor_def apply_update_keeps)

lemma anchor_Some:
  assumes "anchor bot_id key p = Some m"
  shows "(key_channel_id key, m) \<in> set (slack_messages p)" and "is_anchor bot_id m"
    and "m \<in> set (lookup_window key p)"
proof -
  from assms have m: "m \<in> set (lookup_window key p)" and a: "is_anchor bot_id m"
    by (auto simp: anchor_def find_Some_iff)
  from m have "m \<in> set (thread_messages (key_channel_id key) (key_thread_ts key) (slack_messages p))"
    unfolding lookup_window_def by (rule in_set_takeD)
  then show "(key_channel_id key, m) \<in> set (slack_messages p)"
    by (auto simp: thread_messages_def)
  show "is_anchor bot_id m" by (rule a)
  show "m \<in> set (lookup_window key p)" by (rule m)
qed

lemma anchor_after_update:
  assumes "slack_messages p' = map (apply_update request) (slack_messages p)"
  shows "anchor bot_id key p' =
           map_option (\<lambda>m. snd (apply_update request (key_channel_id key, m))) (anchor bot_id key p)"
  using assms
  by (simp add: anchor_def lookup_window_def thread_messages_update take_map find_map_option
        is_anchor_update)

lemma slack_save_succeeds:
  assumes a: "anchor bot_id key (platform w) = Some m"
    and ok: "calls_succeed (Suc (Suc n)) (platform w)"
  shows "save (slack_store bot_id) key newContext w =
           (Inr (),
            w\<lparr>platform := (platform w)
                 \<lparr>slack_calls := slack_calls (platform w) @
                    [ConversationsRepliesCall (replies_request key),
                     ChatUpdateCall (update_request (reply_of key m) newContext)],
                  slack_outages := tl (tl (slack_outages (platform w))),
                  slack_messages :=
                    map (apply_update (update_request (reply_of key m) newContext))
                      (slack_messages (platform w))\<rparr>\<rparr>)"
proof -
  let ?p = "platform w"
  let ?rq = "update_request (reply_of key m) newContext"
  let ?p1 = "?p\<lparr>slack_calls := slack_calls ?p @ [ConversationsRepliesCall (replies_request key)],
                slack_outages := tl (slack_outages ?p)\<rparr>"
  let ?p2 = "?p1\<lparr>slack_calls := slack_calls ?p1 @ [ChatUpdateCall ?rq]\<rparr>"
  have ok1: "calls_succeed (Suc n) ?p2"
    using ok by (rule calls_succeed_tl) simp
  have "update_targets ?rq (key_channel_id key, m)"
    by (simp add: update_targets_def update_request_sel)
  with anchor_Some(1) [OF a] have ex: "list_ex (update_targets ?rq) (slack_messages ?p)"
    by (auto simp: list_ex_iff)
  have upd: "slack_chat_update ?rq ?p1 =
               (Inr (), ?p2\<lparr>slack_outages := tl (slack_outages ?p2),
                            slack_messages := map (apply_update ?rq) (slack_messages ?p)\<rparr>)"
    by (subst slack_chat_update_def, subst next_outage_succeeds [OF ok1]) (simp add: ex)
  show ?thesis
    by (simp add: save_def await_def slack_lookup_succeeds [OF ok] a api_call_def upd
          slack_store_sel)
qed

lemma apply_update_anchor:
  "apply_update (update_request (reply_of key m) c) (key_channel_id key, m) =
     (key_channel_id key,
      m\<lparr>msg_metadata := Some \<lparr>event_type = ''assistant_thread_context'', event_payload = c\<rparr>\<rparr>)"
  by (cases "msg_text m"; cases "msg_blocks m")
    (simp_all add: apply_update_def update_targets_def update_request_sel)

lemma update_targets_unique:
  assumes u: "unique_timestamps p"
    and m: "(key_channel_id key, m) \<in> set (slack_messages p)"
    and cm: "cm \<in> set (slack_messages p)"
    and t: "update_targets (update_request (reply_of key m) c) cm"
  shows "cm = (key_channel_id key, m)"
proof -
  let ?f = "\<lambda>cm. (fst cm, msg_ts (snd cm))"
  from u have inj: "inj_on ?f (set (slack_messages p))"
    by (simp add: unique_timestamps_def distinct_map)
  from t have eq: "?f cm = ?f (key_channel_id key, m)"
    by (simp add: update_targets_def update_request_sel)
  from inj eq cm m show ?thesis
    by (rule inj_onD)
qed

lemma update_changes_anchor_only:
  assumes u: "unique_timestamps p"
    and m: "(key_channel_id key, m) \<in> set (slack_messages p)"
  shows "map (apply_update (update_request (reply_of key m) c)) (slack_messages p) =
         map (\<lambda>cm. if cm = (key_channel_id key, m)
                    then (fst cm, (snd cm)\<lparr>msg_metadata :=
                            Some \<lparr>event_type = ''assistant_thread_context'', event_payload = c\<rparr>\<rparr>)
                    else cm)
           (slack_messages p)"
proof (rule map_cong [OF refl])
  fix cm assume cm: "cm \<in> set (slack_messages p)"
  show "apply_update (update_request (reply_of key m) c) cm =
          (if cm = (key_channel_id key, m)
           then (fst cm, (snd cm)\<lparr>msg_metadata :=
                   Some \<lparr>event_type = ''assistant_thread_context'', event_payload = c\<rparr>\<rparr>)
           else cm)"
  proof (cases "cm = (key_channel_id key, m)")
    case True
    then show ?thesis by (simp add: apply_update_anchor)
  next
    case False
    with update_targets_unique [OF u m cm] have "\<not> update_targets (update_request (reply_of key m) c) cm"
      by blast
    with False show ?thesis by (simp add: apply_update_def)
  qed
qed

subsection \<open>The scenarios\<close>

lemma demo_anchor:
  "anchor ''BOT1'' demo_key (platform (demo_world outages)) = Some demo_greeting"
  by (simp add: anchor_def lookup_window_def thread_messages_def is_anchor_def demo_world_def
        demo_key_def demo_root_def demo_greeting_def)

lemma demo_silent_anchor:
  "anchor ''BOT1'' demo_key (platform (demo_silent_world outages)) = None"
  by (simp add: anchor_def lookup_window_def thread_messages_def is_anchor_def demo_silent_world_def
        demo_key_def demo_root_def)

lemma demo_calls_succeed: "calls_succeed n (platform (demo_world []))"
  by (simp add: calls_succeed_def demo_world_def)

lemma demo_unique_timestamps: "unique_timestamps (platform (demo_world outages))"
  by (simp add: unique_timestamps_def demo_world_def demo_root_def demo_greeting_def)

subsection \<open>The slots of the assistant\<close>

text \<open>
  What the catch clause of a slot does with a rejection: a value other than \<open>undefined\<close>
  and \<open>null\<close> is logged with its stack (the text \<open>undefined\<close> when it has none) and the
  slot resolves; for \<open>undefined\<close> and \<open>null\<close> the read of the stack raises, and the
  \<open>TypeError\<close> leaves the slot.
\<close>

lemma slot_failure_is_logged:
  assumes "body w = (Inl e, w')" and "e \<noteq> JSUndefined" and "e \<noteq> JSNull"
  shows "try_catch body (console_error_stack prefix) w =
           (Inr (),
            w'\<lparr>console := console w' @
                 [ConsoleError (prefix @ (case e of JSError name message stack \<Rightarrow> stack
                                          | _ \<Rightarrow> ''undefined''))]\<rparr>)"
  using assms
  by (cases e) (simp_all add: try_catch_def console_error_stack_def console_error_def)

lemma slot_failure_nullish_escapes:
  assumes "body w = (Inl e, w')" and "e = JSUndefined \<or> e = JSNull"
  shows "try_catch body (console_error_stack prefix) w =
           (Inl (nullish_read_error (template_string e)), w')"
  using assms
  by (auto simp: try_catch_def console_error_stack_def reject_def)

lemma register_all_threadStarted:
  "threadStartedHandler (register_all iate rs this) =
     (case last_registered started_of rs of
        Some handler \<Rightarrow> (\<lambda>req.
          try_catch (if iate (req_body req) then handler req else resolve ())
            (console_error_stack ''Failed to execute threadStartedHandler listener: ''))
      | None \<Rightarrow> threadStartedHandler this)"
proof (induction rs arbitrary: this)
  case Nil
  show ?case by simp
next
  case (Cons r rs)
  show ?case
    by (cases r)
      (simp_all add: Cons.IH threadStarted_def threadContextChanged_def userMessage_def
        botMessage_def split: option.split)
qed

lemma register_all_threadContextChanged:
  "threadContextChangedHandler (register_all iate rs this) =
     (case last_registered changed_of rs of
        Some handler \<Rightarrow> (\<lambda>req.
          try_catch (if iate (req_body req) then handler req else resolve ())
            (console_error_stack ''Failed to execute threadContextChangedHandler listener: ''))
      | None \<Rightarrow> threadContextChangedHandler this)"
proof (induction rs arbitrary: this)
  case Nil
  show ?case by simp
next
  case (Cons r rs)
  show ?case
    by (cases r)
      (simp_all add: Cons.IH threadStarted_def threadContextChanged_def userMessage_def
        botMessage_def split: option.split)
qed

lemma register_all_userMessage:
  "userMessageHandler (register_all iate rs this) =
     (case last_registered user_of rs of
        Some handler \<Rightarrow> (\<lambda>req.
          try_catch
            (if ev_subtype (req_payload req) = None \<or> ev_subtype (req_payload req) = Some ''file_share''
             then handler req else resolve ())
            (console_error_stack ''Failed to execute userMessageHandler listener: ''))
      | None \<Rightarrow> userMessageHandler this)"
proof (induction rs arbitrary: this)
  case Nil
  show ?case by simp
next
  case (Cons r rs)
  show ?case
    by (cases r)
      (simp_all add: Cons.IH threadStarted_def threadContextChanged_def userMessage_def
        botMessage_def split: option.split)
qed

lemma register_all_botMessage:
  "botMessageHandler (register_all iate rs this) =
     (case last_registered bot_of rs of
        Some handler \<Rightarrow> (\<lambda>req.
          try_catch
            (if ev_subtype (req_payload req) = None \<and> ev_user (req_payload req) = botUserId (req_context req)
             then handler req else resolve ())
            (console_error_stack ''Failed to execute botMessageHandler listener: ''))
      | None \<Rightarrow> botMessageHandler this)"
proof (induction rs arbitrary: this)
  case Nil
  show ?case by simp
next
  case (Cons r rs)
  show ?case
    by (cases r)
      (simp_all add: Cons.IH threadStarted_def threadContextChanged_def userMessage_def
        botMessage_def split: option.split)
qed




section \<open>Properties\<close>

subsection \<open>Routing of message events\<close>



subsection \<open>Posted messages\<close>

text \<open>
  C2. For every event record, \<open>isPostedMessageEvent\<close> is true exactly when the subtype is
  absent or is one of \<open>bot_message\<close>, \<open>file_share\<close> and \<open>thread_broadcast\<close>. It is true
  for a plain message and for a \<open>bot_message\<close>, and false for a \<open>message_changed\<close>.
\<close>

theorem isPostedMessageEvent_iff:
  "(isPostedMessageEvent event =
     (ev_subtype event \<in> {None, Some ''bot_message'', Some ''file_share'', Some ''thread_broadcast''}))
   \<and> isPostedMessageEvent \<lparr>ev_type = ''message'', ev_subtype = None\<rparr>
   \<and> isPostedMessageEvent \<lparr>ev_type = ''message'', ev_subtype = Some ''bot_message''\<rparr>
   \<and> \<not> isPostedMessageEvent \<lparr>ev_type = ''message'', ev_subtype = Some ''message_changed''\<rparr>"
proof -
  have "isPostedMessageEvent event =
     (ev_subtype event \<in> {None, Some ''bot_message'', Some ''file_share'', Some ''thread_broadcast''})"
    by (auto simp: isPostedMessageEvent_def)
  moreover have "isPostedMessageEvent \<lparr>ev_type = ''message'', ev_subtype = None\<rparr>"
    and "isPostedMessageEvent \<lparr>ev_type = ''message'', ev_subtype = Some ''bot_message''\<rparr>"
    and "\<not> isPostedMessageEvent \<lparr>ev_type = ''message'', ev_subtype = Some ''message_changed''\<rparr>"
    by (simp_all add: isPostedMessageEvent_def)
  ultimately show ?thesis by blast
qed

subsection \<open>The thread context store\<close>

text \<open>
  C3. Let the thread of a key hold, among its first four messages, a message of the bot
  without subtype, and let the platform be reachable (the three calls that follow meet
  no outage). Then \<open>save\<close> followed by \<open>find\<close> on the same key returns exactly the saved
  context.
\<close>

theorem save_then_find:
  assumes a: "anchor bot_id key (platform w) = Some m"
    and ok: "calls_succeed 3 (platform w)"
  shows "fst (find_context (slack_store bot_id) key (snd (save (slack_store bot_id) key newContext w)))
           = Inr (Some newContext)"
proof -
  let ?rq = "update_request (reply_of key m) newContext"
  let ?w' = "snd (save (slack_store bot_id) key newContext w)"
  from ok have ok2: "calls_succeed (Suc (Suc (Suc 0))) (platform w)"
    by (simp add: numeral_3_eq_3)
  note s = slack_save_succeeds [OF a ok2, of newContext]
  have msgs: "slack_messages (platform ?w') = map (apply_update ?rq) (slack_messages (platform w))"
    by (simp add: s)
  have "calls_succeed (Suc 0) (platform ?w')"
  proof -
    have "calls_succeed (Suc (Suc 0)) (platform w\<lparr>slack_outages := tl (slack_outages (platform w))\<rparr>)"
      using ok2 by (rule calls_succeed_tl) simp
    then have "calls_succeed (Suc 0) (platform w\<lparr>slack_outages := tl (tl (slack_outages (platform w)))\<rparr>)"
      by (rule calls_succeed_tl) simp
    then show ?thesis by (simp add: s calls_succeed_def)
  qed
  note l = slack_lookup_succeeds [OF this, of bot_id key]
  have "anchor bot_id key (platform ?w') = Some (snd (apply_update ?rq (key_channel_id key, m)))"
    by (simp add: anchor_after_update [OF msgs] a)
  moreover have "msg_metadata (snd (apply_update ?rq (key_channel_id key, m))) =
                   Some \<lparr>event_type = ''assistant_thread_context'', event_payload = newContext\<rparr>"
    by (simp add: apply_update_def update_targets_def update_request_sel)
  ultimately show ?thesis
    by (simp add: find_context_def await_def l resolve_def reply_of_def)
qed

theorem save_then_find_witness:
  "anchor ''BOT1'' demo_key (platform (demo_world [])) = Some demo_greeting
   \<and> calls_succeed 3 (platform (demo_world []))
   \<and> fst (find_context (slack_store ''BOT1'') demo_key
            (snd (save (slack_store ''BOT1'') demo_key demo_new_context (demo_world []))))
       = Inr (Some demo_new_context)"
proof -
  have a: "anchor ''BOT1'' demo_key (platform (demo_world [])) = Some demo_greeting"
    by (rule demo_anchor)
  have ok: "calls_succeed 3 (platform (demo_world []))"
    by (rule demo_calls_succeed)
  from a ok save_then_find [OF a ok, of demo_new_context] show ?thesis
    by simp
qed

text \<open>
  C4. Let the thread of a key hold no message of the bot without subtype among its first
  four messages. Then, whatever the outages, \<open>find\<close> returns absent, and \<open>save\<close> returns
  normally having sent the lookup and nothing else: no update call is made and no message
  changes.
\<close>

theorem no_anchor_no_update:
  assumes "anchor bot_id key (platform w) = None"
  shows "fst (find_context (slack_store bot_id) key w) = Inr None
       \<and> fst (save (slack_store bot_id) key newContext w) = Inr ()
       \<and> slack_calls (platform (snd (save (slack_store bot_id) key newContext w))) =
           slack_calls (platform w) @ [ConversationsRepliesCall (replies_request key)]
       \<and> slack_messages (platform (snd (save (slack_store bot_id) key newContext w))) =
           slack_messages (platform w)"
proof (cases w rule: slack_lookup_cases)
  case ok
  then have "calls_succeed (Suc 0) (platform w)" by simp
  from slack_lookup_succeeds [OF this] assms show ?thesis
    by (simp add: find_context_def save_def await_def resolve_def)
next
  case (outage e later)
  from slack_lookup_fails [OF this] show ?thesis
    by (simp add: find_context_def save_def await_def resolve_def)
qed

theorem no_anchor_no_update_witness:
  "anchor ''BOT1'' demo_key (platform (demo_silent_world [])) = None
   \<and> fst (find_context (slack_store ''BOT1'') demo_key (demo_silent_world [])) = Inr None
   \<and> fst (save (slack_store ''BOT1'') demo_key demo_new_context (demo_silent_world [])) = Inr ()
   \<and> slack_calls (platform (snd (save (slack_store ''BOT1'') demo_key demo_new_context (demo_silent_world []))))
       = [ConversationsRepliesCall (replies_request demo_key)]"
proof -
  have a: "anchor ''BOT1'' demo_key (platform (demo_silent_world [])) = None"
    by (rule demo_silent_anchor)
  from a no_anchor_no_update [OF a, of demo_new_context] show ?thesis
    by (simp add: demo_silent_world_def)
qed

text \<open>
  C5 (as the code has it). For every client, every thread key and every failure of the
  lookup call, the failure is caught inside the store and logged, \<open>find\<close> returns absent
  and \<open>save\<close> returns normally without an update call: both leave the platform as the
  failed lookup left it. \<open>find\<close> never rejects. The update call of \<open>save\<close> stands outside
  the try and catch of the lookup.
\<close>

theorem lookup_failure_is_swallowed:
  assumes "conversations_replies (client this) (replies_request key) (platform w) = (Inl e, p')"
  shows "find_context this key w =
           (Inr None,
            w\<lparr>platform := p',
              console := console w @
                [ConsoleLog (''Failed to fetch conversations.replies API result: '' @ template_string e)]\<rparr>)
       \<and> save this key newContext w =
           (Inr (),
            w\<lparr>platform := p',
              console := console w @
                [ConsoleLog (''Failed to fetch conversations.replies API result: '' @ template_string e)]\<rparr>)
       \<and> (\<exists>r. fst (find_context this key' w') = Inr r)"
proof -
  obtain r where "fst (findFirstAssistantReply this key' w') = Inr r"
    using findFirstAssistantReply_never_rejects by blast
  then have "\<exists>r. fst (find_context this key' w') = Inr r"
    by (cases "findFirstAssistantReply this key' w'")
      (auto simp: find_context_def await_def resolve_def split: option.splits)
  then show ?thesis
    by (simp add: find_context_def save_def await_def resolve_def
          findFirstAssistantReply_rejected [OF assms])
qed

theorem lookup_failure_is_swallowed_witness:
  "conversations_replies (client (slack_store ''BOT1'')) (replies_request demo_key)
       (platform (demo_world [Some rate_limited]))
     = (Inl rate_limited,
        \<lparr>slack_messages = [(''D1'', demo_root), (''D1'', demo_greeting)],
         slack_calls = [ConversationsRepliesCall (replies_request demo_key)],
         slack_outages = []\<rparr>)
   \<and> fst (find_context (slack_store ''BOT1'') demo_key (demo_world [Some rate_limited])) = Inr None
   \<and> fst (save (slack_store ''BOT1'') demo_key demo_new_context (demo_world [Some rate_limited])) = Inr ()
   \<and> console (snd (save (slack_store ''BOT1'') demo_key demo_new_context (demo_world [Some rate_limited])))
       = [ConsoleLog ''Failed to fetch conversations.replies API result: SlackAPIError: ratelimited'']
   \<and> slack_calls (platform (snd (save (slack_store ''BOT1'') demo_key demo_new_context
         (demo_world [Some rate_limited]))))
       = [ConversationsRepliesCall (replies_request demo_key)]"
proof -
  have h: "conversations_replies (client (slack_store ''BOT1'')) (replies_request demo_key)
       (platform (demo_world [Some rate_limited]))
     = (Inl rate_limited,
        \<lparr>slack_messages = [(''D1'', demo_root), (''D1'', demo_greeting)],
         slack_calls = [ConversationsRepliesCall (replies_request demo_key)],
         slack_outages = []\<rparr>)"
    by (simp add: slack_store_sel slack_conversations_replies_def next_outage_def demo_world_def)
  from h lookup_failure_is_swallowed [OF h, of demo_new_context] show ?thesis
    by (simp add: demo_world_def rate_limited_def)
qed

text \<open>
  The lookup succeeds and finds the greeting of the bot; the update call that follows is
  rate limited. \<open>save\<close> rejects with the error of the update call.
\<close>

theorem update_failure_propagates:
  "fst (save (slack_store ''BOT1'') demo_key demo_new_context (demo_world [None, Some rate_limited]))
     = Inl rate_limited"
proof -
  have ok: "calls_succeed (Suc 0) (platform (demo_world [None, Some rate_limited]))"
    by (simp add: calls_succeed_def demo_world_def)
  note found = slack_lookup_succeeds [OF ok, of "''BOT1''" demo_key, unfolded demo_anchor]
  show ?thesis
    unfolding save_def await_def found
    by (simp add: api_call_def slack_store_sel slack_chat_update_def next_outage_def demo_world_def)
qed

subsection \<open>Failure isolation of the slots\<close>

text \<open>
  C6. Every slot wraps its handler, registered or default, in a try and catch that logs
  the stack of what was thrown under the slot's name, so that nothing is rethrown. The
  catch clause reads the stack off the caught value, and that read raises when the value
  is \<open>undefined\<close> or \<open>null\<close>. A handler that rejects with \<open>undefined\<close>, registered on any of
  the four slots, makes the slot reject with a \<open>TypeError\<close>; so does the default
  behaviour of a new thread when the reply capability rejects with \<open>null\<close>.
\<close>

theorem rejection_with_undefined_escapes:
  "fst (threadStartedHandler
          (threadStarted (\<lambda>body. True) (rejecting JSUndefined) (new_Assistant (\<lambda>body. True) no_options))
          demo_thread_event quiet)
     = Inl (nullish_read_error ''undefined'')
   \<and> fst (threadContextChangedHandler
          (threadContextChanged (\<lambda>body. True) (rejecting JSUndefined)
             (new_Assistant (\<lambda>body. True) no_options))
          demo_thread_event quiet)
     = Inl (nullish_read_error ''undefined'')
   \<and> fst (userMessageHandler
          (userMessage (rejecting JSUndefined) (new_Assistant (\<lambda>body. True) no_options))
          (demo_message ''U2'') quiet)
     = Inl (nullish_read_error ''undefined'')
   \<and> fst (botMessageHandler
          (botMessage (rejecting JSUndefined) (new_Assistant (\<lambda>body. True) no_options))
          (demo_message ''BOT1'') quiet)
     = Inl (nullish_read_error ''undefined'')
   \<and> fst (threadStartedHandler (new_Assistant (\<lambda>body. True) no_options)
          (demo_thread_event\<lparr>req_context := demo_context\<lparr>say := (\<lambda>arguments. reject JSNull)\<rparr>\<rparr>) quiet)
     = Inl (nullish_read_error ''null'')"
proof -
  note slot = try_catch_def console_error_stack_def rejecting_def reject_def
  have "fst (threadStartedHandler
          (threadStarted (\<lambda>body. True) (rejecting JSUndefined) (new_Assistant (\<lambda>body. True) no_options))
          demo_thread_event quiet) = Inl (nullish_read_error ''undefined'')"
    by (simp add: threadStarted_def slot)
  moreover have "fst (threadContextChangedHandler
          (threadContextChanged (\<lambda>body. True) (rejecting JSUndefined)
             (new_Assistant (\<lambda>body. True) no_options))
          demo_thread_event quiet) = Inl (nullish_read_error ''undefined'')"
    by (simp add: threadContextChanged_def slot)
  moreover have "fst (userMessageHandler
          (userMessage (rejecting JSUndefined) (new_Assistant (\<lambda>body. True) no_options))
          (demo_message ''U2'') quiet) = Inl (nullish_read_error ''undefined'')"
    by (simp add: userMessage_def demo_message_def slot)
  moreover have "fst (botMessageHandler
          (botMessage (rejecting JSUndefined) (new_Assistant (\<lambda>body. True) no_options))
          (demo_message ''BOT1'') quiet) = Inl (nullish_read_error ''undefined'')"
    by (simp add: botMessage_def demo_message_def demo_context_def slot)
  moreover have "fst (threadStartedHandler (new_Assistant (\<lambda>body. True) no_options)
          (demo_thread_event\<lparr>req_context := demo_context\<lparr>say := (\<lambda>arguments. reject JSNull)\<rparr>\<rparr>) quiet)
     = Inl (nullish_read_error ''null'')"
    by (simp add: new_Assistant_def no_options_def await_def slot)
  ultimately show ?thesis by blast
qed

subsection \<open>One handler for each slot\<close>

text \<open>
  C7. After any sequence of registrations on a new coordinator, each of the four slots
  behaves as one handler: the one most recently registered for that slot, run under the
  slot's guard and inside its try and catch. No handler registered earlier for the slot,
  and no handler of the constructor's options, takes part. A slot for which nothing was
  registered is as the constructor left it.
\<close>

theorem last_registration_wins:
  "threadStartedHandler (register_all iate rs (new_Assistant iate options)) req =
     (case last_registered started_of rs of
        Some handler \<Rightarrow>
          try_catch (if iate (req_body req) then handler req else resolve ())
            (console_error_stack ''Failed to execute threadStartedHandler listener: '')
      | None \<Rightarrow> threadStartedHandler (new_Assistant iate options) req)
   \<and> threadContextChangedHandler (register_all iate rs (new_Assistant iate options)) req =
     (case last_registered changed_of rs of
        Some handler \<Rightarrow>
          try_catch (if iate (req_body req) then handler req else resolve ())
            (console_error_stack ''Failed to execute threadContextChangedHandler listener: '')
      | None \<Rightarrow> threadContextChangedHandler (new_Assistant iate options) req)
   \<and> userMessageHandler (register_all iate rs (new_Assistant iate options)) message =
     (case last_registered user_of rs of
        Some handler \<Rightarrow>
          try_catch
            (if ev_subtype (req_payload message) = None
                \<or> ev_subtype (req_payload message) = Some ''file_share''
             then handler message else resolve ())
            (console_error_stack ''Failed to execute userMessageHandler listener: '')
      | None \<Rightarrow> userMessageHandler (new_Assistant iate options) message)
   \<and> botMessageHandler (register_all iate rs (new_Assistant iate options)) message =
     (case last_registered bot_of rs of
        Some handler \<Rightarrow>
          try_catch
            (if ev_subtype (req_payload message) = None
                \<and> ev_user (req_payload message) = botUserId (req_context message)
             then handler message else resolve ())
            (console_error_stack ''Failed to execute botMessageHandler listener: '')
      | None \<Rightarrow> botMessageHandler (new_Assistant iate options) message)"
proof -
  let ?a = "new_Assistant iate options"
  have "threadStartedHandler (register_all iate rs ?a) req =
     (case last_registered started_of rs of
        Some handler \<Rightarrow>
          try_catch (if iate (req_body req) then handler req else resolve ())
            (console_error_stack ''Failed to execute threadStartedHandler listener: '')
      | None \<Rightarrow> threadStartedHandler ?a req)"
    by (simp add: register_all_threadStarted split: option.split)
  moreover have "threadContextChangedHandler (register_all iate rs ?a) req =
     (case last_registered changed_of rs of
        Some handler \<Rightarrow>
          try_catch (if iate (req_body req) then handler req else resolve ())
            (console_error_stack ''Failed to execute threadContextChangedHandler listener: '')
      | None \<Rightarrow> threadContextChangedHandler ?a req)"
    by (simp add: register_all_threadContextChanged split: option.split)
  moreover have "userMessageHandler (register_all iate rs ?a) message =
     (case last_registered user_of rs of
        Some handler \<Rightarrow>
          try_catch
            (if ev_subtype (req_payload message) = None
                \<or> ev_subtype (req_payload message) = Some ''file_share''
             then handler message else resolve ())
            (console_error_stack ''Failed to execute userMessageHandler listener: '')
      | None \<Rightarrow> userMessageHandler ?a message)"
    by (simp add: register_all_userMessage split: option.split)
  moreover have "botMessageHandler (register_all iate rs ?a) message =
     (case last_registered bot_of rs of
        Some handler \<Rightarrow>
          try_catch
            (if ev_subtype (req_payload message) = None
                \<and> ev_user (req_payload message) = botUserId (req_context message)
             then handler message else resolve ())
            (console_error_stack ''Failed to execute botMessageHandler listener: '')
      | None \<Rightarrow> botMessageHandler ?a message)"
    by (simp add: register_all_botMessage split: option.split)
  ultimately show ?thesis by blast
qed

text \<open>
  Two user-message handlers registered in turn, a bot-message handler between them: a
  message of the user \<open>U2\<close> reaches the second one only.
\<close>

theorem last_registration_wins_witness:
  "console (snd (userMessageHandler
      (register_all (\<lambda>body. True)
         [RegisterUserMessage (marking ''first''), RegisterBotMessage (marking ''bot''),
          RegisterUserMessage (marking ''second'')]
         (new_Assistant (\<lambda>body. True) no_options))
      (demo_message ''U2'') quiet))
   = [ConsoleLog ''second'']"
  using last_registration_wins [of "\<lambda>body. True"
      "[RegisterUserMessage (marking ''first''), RegisterBotMessage (marking ''bot''),
        RegisterUserMessage (marking ''second'')]" no_options _ "demo_message ''U2''", THEN conjunct2,
      THEN conjunct2, THEN conjunct1]
  by (simp add: try_catch_def marking_def console_log_def demo_message_def quiet_def)

subsection \<open>Slash commands\<close>



subsection \<open>What the store sends and changes\<close>

text \<open>
  C9. Let the lookup of a key find an anchor (the platform reachable for the two calls,
  timestamps identifying the messages of a channel). Then \<open>save\<close> sends the lookup and one
  update call; the channel, timestamp, text and blocks of the update call are those of the
  anchor, and its metadata has the event type \<open>assistant_thread_context\<close> and the new
  context as payload. On the platform only the metadata of the anchor changes.
\<close>

theorem save_writes_metadata_only:
  assumes "anchor bot_id key (platform w) = Some m"
    and "calls_succeed 2 (platform w)"
    and "unique_timestamps (platform w)"
  shows "slack_calls (platform (snd (save (slack_store bot_id) key newContext w))) =
           slack_calls (platform w) @
             [ConversationsRepliesCall (replies_request key),
              ChatUpdateCall
                \<lparr>update_channel_id = key_channel_id key,
                 update_ts = msg_ts m,
                 update_text = msg_text m,
                 update_blocks = msg_blocks m,
                 update_channel = key_channel_id key,
                 update_metadata =
                   Some \<lparr>event_type = ''assistant_thread_context'', event_payload = newContext\<rparr>\<rparr>]
       \<and> slack_messages (platform (snd (save (slack_store bot_id) key newContext w))) =
           map (\<lambda>cm. if cm = (key_channel_id key, m)
                      then (fst cm, (snd cm)\<lparr>msg_metadata :=
                              Some \<lparr>event_type = ''assistant_thread_context'',
                                    event_payload = newContext\<rparr>\<rparr>)
                      else cm)
             (slack_messages (platform w))"
proof -
  from assms(2) have ok: "calls_succeed (Suc (Suc 0)) (platform w)"
    by (simp add: numeral_2_eq_2)
  note s = slack_save_succeeds [OF assms(1) ok, of newContext]
  have calls: "slack_calls (platform (snd (save (slack_store bot_id) key newContext w))) =
      slack_calls (platform w) @
        [ConversationsRepliesCall (replies_request key),
         ChatUpdateCall (update_request (reply_of key m) newContext)]"
    by (simp add: s)
  have msgs: "slack_messages (platform (snd (save (slack_store bot_id) key newContext w))) =
      map (apply_update (update_request (reply_of key m) newContext)) (slack_messages (platform w))"
    by (simp add: s)
  show ?thesis
    unfolding calls msgs update_changes_anchor_only [OF assms(3) anchor_Some(1) [OF assms(1)]]
    by (simp add: update_request_def reply_of_def)
qed

theorem save_writes_metadata_only_witness:
  "anchor ''BOT1'' demo_key (platform (demo_world [])) = Some demo_greeting
   \<and> calls_succeed 2 (platform (demo_world []))
   \<and> unique_timestamps (platform (demo_world []))
   \<and> slack_messages (platform (snd (save (slack_store ''BOT1'') demo_key demo_new_context (demo_world [])))) =
       [(''D1'', demo_root),
        (''D1'', demo_greeting\<lparr>msg_metadata :=
           Some \<lparr>event_type = ''assistant_thread_context'', event_payload = demo_new_context\<rparr>\<rparr>)]"
proof -
  have a: "anchor ''BOT1'' demo_key (platform (demo_world [])) = Some demo_greeting"
    by (rule demo_anchor)
  have ok: "calls_succeed 2 (platform (demo_world []))"
    by (rule demo_calls_succeed)
  have u: "unique_timestamps (platform (demo_world []))"
    by (rule demo_unique_timestamps)
  have "demo_root \<noteq> demo_greeting"
    by (simp add: demo_root_def demo_greeting_def)
  with a ok u save_writes_metadata_only [OF a ok u, of demo_new_context] show ?thesis
    by (simp add: demo_world_def demo_key_def)
qed

text \<open>
  C10. The lookup of a key sends one request: the thread of the key from its root
  timestamp on, metadata included, at most 4 messages. When the call succeeds, the reply
  it returns is built from the first message of that window that has no subtype and whose
  user is the bot: the message stands at an index below 4, it has no subtype, its user is
  the bot, and no message before it qualifies. When no message of the window qualifies,
  nothing is selected. A message with a subtype, and a message from the fifth on, is never
  selected.
\<close>

theorem lookup_selects_first_bot_message_of_four:
  assumes "calls_succeed 1 (platform w)"
  shows "fst (findFirstAssistantReply (slack_store bot_id) key w) =
           Inr (map_option (reply_of key) (anchor bot_id key (platform w)))
       \<and> slack_calls (platform (snd (findFirstAssistantReply (slack_store bot_id) key w))) =
           slack_calls (platform w) @
             [ConversationsRepliesCall
                \<lparr>replies_channel = key_channel_id key,
                 replies_ts = key_thread_ts key,
                 replies_oldest = key_thread_ts key,
                 replies_include_all_metadata = True,
                 replies_limit = 4\<rparr>]
       \<and> (case anchor bot_id key (platform w) of
            Some m \<Rightarrow>
              (\<exists>i<4. i < length (thread_messages (key_channel_id key) (key_thread_ts key)
                                   (slack_messages (platform w)))
                 \<and> m = thread_messages (key_channel_id key) (key_thread_ts key)
                         (slack_messages (platform w)) ! i
                 \<and> msg_subtype m = None \<and> msg_user m = Some bot_id
                 \<and> (\<forall>j<i. \<not> (msg_subtype (thread_messages (key_channel_id key) (key_thread_ts key)
                                               (slack_messages (platform w)) ! j) = None
                              \<and> msg_user (thread_messages (key_channel_id key) (key_thread_ts key)
                                             (slack_messages (platform w)) ! j) = Some bot_id)))
          | None \<Rightarrow>
              (\<forall>i<4. i < length (thread_messages (key_channel_id key) (key_thread_ts key)
                                   (slack_messages (platform w)))
                 \<longrightarrow> \<not> (msg_subtype (thread_messages (key_channel_id key) (key_thread_ts key)
                                         (slack_messages (platform w)) ! i) = None
                        \<and> msg_user (thread_messages (key_channel_id key) (key_thread_ts key)
                                       (slack_messages (platform w)) ! i) = Some bot_id)))"
proof -
  let ?t = "thread_messages (key_channel_id key) (key_thread_ts key) (slack_messages (platform w))"
  from assms have ok: "calls_succeed (Suc 0) (platform w)" by simp
  note l = slack_lookup_succeeds [OF ok, of bot_id key]
  have sel: "case anchor bot_id key (platform w) of
      Some m \<Rightarrow> (\<exists>i<4. i < length ?t \<and> m = ?t ! i \<and> msg_subtype m = None \<and> msg_user m = Some bot_id
                   \<and> (\<forall>j<i. \<not> (msg_subtype (?t ! j) = None \<and> msg_user (?t ! j) = Some bot_id)))
    | None \<Rightarrow> (\<forall>i<4. i < length ?t \<longrightarrow> \<not> (msg_subtype (?t ! i) = None \<and> msg_user (?t ! i) = Some bot_id))"
  proof (cases "anchor bot_id key (platform w)")
    case None
    then have "\<forall>m \<in> set (take 4 ?t). \<not> is_anchor bot_id m"
      by (simp add: anchor_def lookup_window_def find_None_iff)
    then have "\<forall>i<4. i < length ?t \<longrightarrow> \<not> is_anchor bot_id (?t ! i)"
      by (metis length_take min_less_iff_conj nth_mem nth_take)
    with None show ?thesis by (simp add: is_anchor_def)
  next
    case (Some m)
    then obtain i where i: "i < length (take 4 ?t)" "is_anchor bot_id (take 4 ?t ! i)"
      "m = take 4 ?t ! i" "\<forall>j<i. \<not> is_anchor bot_id (take 4 ?t ! j)"
      by (auto simp: anchor_def lookup_window_def find_Some_iff)
    then have "i < 4" "i < length ?t" by simp_all
    moreover from i \<open>i < 4\<close> have "m = ?t ! i" "is_anchor bot_id m" by simp_all
    moreover from i \<open>i < 4\<close> have "\<forall>j<i. \<not> is_anchor bot_id (?t ! j)" by simp
    ultimately show ?thesis using Some by (auto simp: is_anchor_def)
  qed
  have "fst (findFirstAssistantReply (slack_store bot_id) key w) =
           Inr (map_option (reply_of key) (anchor bot_id key (platform w)))"
    by (simp add: l)
  moreover have "slack_calls (platform (snd (findFirstAssistantReply (slack_store bot_id) key w))) =
           slack_calls (platform w) @ [ConversationsRepliesCall (replies_request key)]"
    by (simp add: l)
  ultimately show ?thesis using sel by (simp add: replies_request_def)
qed

theorem lookup_selects_first_bot_message_of_four_witness:
  "calls_succeed 1 (platform (demo_world []))
   \<and> fst (findFirstAssistantReply (slack_store ''BOT1'') demo_key (demo_world [])) =
       Inr (Some \<lparr>reply_channel_id = ''D1'', reply_ts = ''100.001'', reply_text = Some ''Hello'',
                  reply_blocks = Some [Block ''section''], reply_metadata = None\<rparr>)"
proof -
  have ok: "calls_succeed 1 (platform (demo_world []))"
    by (rule demo_calls_succeed)
  note found =
    lookup_selects_first_bot_message_of_four [OF ok, of "''BOT1''" demo_key, unfolded demo_anchor,
      THEN conjunct1]
  from ok found show ?thesis
    by (simp add: reply_of_def demo_key_def demo_greeting_def)
qed

end
